theory Spec2Isabelle
  imports Main "HOL-Library.Sublist"
begin

section \<open>Values carried by a request\<close>

text \<open>
  The form, query-string and body parsers hand the handlers strings, arrays and plain
  objects; a missing field is \<open>undefined\<close>, written \<open>None\<close>.  No handler reads a
  property of an object, so an object is given by the names of its own properties,
  whatever their values: \<^verbatim>\<open>{"toString":1}\<close> is \<open>JObj [''toString'']\<close>.  JSON
  \<open>null\<close>, numbers and booleans as values of a field the handlers read are not
  represented.  Strings are lists of \<open>char\<close>; lengths and white space are those of
  ASCII text.
\<close>

datatype jsval = JStr string | JArr "jsval list" | JObj "string list"

text \<open>\<^verbatim>\<open>Array.prototype.join\<close> with the default separator.\<close>

fun join_comma :: "string list \<Rightarrow> string" where
  "join_comma [] = []"
| "join_comma [x] = x"
| "join_comma (x # y # ys) = x @ '','' @ join_comma (y # ys)"

text \<open>All results of a list of conversions, or \<open>None\<close> if one of them failed.\<close>

fun sequence :: "'a option list \<Rightarrow> 'a list option" where
  "sequence [] = Some []"
| "sequence (None # xs) = None"
| "sequence (Some y # xs) = map_option ((#) y) (sequence xs)"

text \<open>
  \<^verbatim>\<open>String(v)\<close> and \<^verbatim>\<open>v.toString()\<close> for \<open>v\<close> not \<open>undefined\<close>; \<open>None\<close>
  is the \<^verbatim>\<open>TypeError\<close> thrown.  An object with an own property \<^verbatim>\<open>toString\<close> has no
  string conversion: the property, which came from JSON or from a query string, is not
  a function.  Any other object is \<^verbatim>\<open>[object Object]\<close>.  An array is the join of the
  conversions of its elements, and throws if one of them does.
\<close>

fun js_toString :: "jsval \<Rightarrow> string option" where
  "js_toString (JStr s) = Some s"
| "js_toString (JArr xs) = map_option join_comma (sequence (map js_toString xs))"
| "js_toString (JObj keys) =
     (if ''toString'' \<in> set keys then None else Some ''[object Object]'')"

text \<open>Truthiness: \<open>undefined\<close> and the empty string are falsy, arrays and objects truthy.\<close>

fun truthy :: "jsval option \<Rightarrow> bool" where
  "truthy None = False"
| "truthy (Some (JStr s)) = (s \<noteq> [])"
| "truthy (Some (JArr xs)) = True"
| "truthy (Some (JObj keys)) = True"

definition lower_char :: "char \<Rightarrow> char" where
  "lower_char c =
     (if 65 \<le> (of_char c :: nat) \<and> (of_char c :: nat) \<le> 90
      then char_of ((of_char c :: nat) + 32) else c)"

text \<open>Case conversion of ASCII text.\<close>

definition toLowerCase :: "string \<Rightarrow> string" where
  "toLowerCase s = map lower_char s"

definition white_space :: "char \<Rightarrow> bool" where
  "white_space c = ((of_char c :: nat) \<in> {9, 10, 11, 12, 13, 32})"

definition trim :: "string \<Rightarrow> string" where
  "trim s = rev (dropWhile white_space (rev (dropWhile white_space s)))"

section \<open>Replies\<close>

text \<open>
  \<open>Failure code msg\<close> is \<^verbatim>\<open>res.status(code).json({ error: msg })\<close>;
  \<open>Success x\<close> is \<^verbatim>\<open>res.json(x)\<close>, sent with status 200.
\<close>

datatype 'a reply = Failure nat string | Success 'a

fun status_code :: "'a reply \<Rightarrow> nat" where
  "status_code (Failure code msg) = code"
| "status_code (Success x) = 200"

definition client_error :: "'a reply \<Rightarrow> bool" where
  "client_error r = (400 \<le> status_code r \<and> status_code r < 500)"

section \<open>auth.js\<close>

type_synonym env = "string \<Rightarrow> string option"

definition ADMIN_EMAIL :: "env \<Rightarrow> string" where
  "ADMIN_EMAIL e = (case e ''ADMIN_EMAIL'' of None \<Rightarrow> [] | Some v \<Rightarrow> v)"

definition ADMIN_PASSWORD :: "env \<Rightarrow> string" where
  "ADMIN_PASSWORD e = (case e ''ADMIN_PASSWORD'' of None \<Rightarrow> [] | Some v \<Rightarrow> v)"

definition JWT_SECRET :: "env \<Rightarrow> string" where
  "JWT_SECRET e =
     (case e ''JWT_SECRET'' of None \<Rightarrow> ''dev-secret-change-me''
      | Some v \<Rightarrow> if v = [] then ''dev-secret-change-me'' else v)"

text \<open>
  The claims of a token.  A field is \<open>None\<close> when the payload has no such string
  field (the field is absent or not a string, or the payload is no object).
\<close>

record jwt_claims =
  sub :: "string option"
  role :: "string option"
  email :: "string option"

text \<open>
  The jsonwebtoken library is not part of the repository.  Its two functions are
  parameters: \<open>jwt_sign payload secret expiresIn\<close> yields the token, and
  \<open>jwt_verify token secret\<close> yields the payload, or \<open>None\<close> where the library throws
  (malformed or expired token, wrong signature).
\<close>

type_synonym jwt_sign = "jwt_claims \<Rightarrow> string \<Rightarrow> string \<Rightarrow> string"
type_synonym jwt_verify = "string \<Rightarrow> string \<Rightarrow> jwt_claims option"

text \<open>
  \<open>lower\<close> is the runtime's \<^verbatim>\<open>String.prototype.toLowerCase\<close>, taken as it is.
\<close>

definition login ::
  "env \<Rightarrow> jwt_sign \<Rightarrow> (string \<Rightarrow> string) \<Rightarrow> string \<Rightarrow> string \<Rightarrow> string option" where
  "login e jwt_sign lower email' password =
     (if ADMIN_EMAIL e = [] \<or> ADMIN_PASSWORD e = [] then None
      else if email' = [] \<or> password = [] then None
      else if lower email' \<noteq> lower (ADMIN_EMAIL e) then None
      else if password \<noteq> ADMIN_PASSWORD e then None
      else Some (jwt_sign
             \<lparr>sub = Some ''admin'', role = Some ''admin'', email = Some (ADMIN_EMAIL e)\<rparr>
             (JWT_SECRET e) ''7d''))"

text \<open>What the guards read of a request: the Authorization header and \<^verbatim>\<open>req.query.token\<close>.\<close>

record request =
  authorization :: "string option"
  query_token :: "jsval option"

definition line_terminator :: "char \<Rightarrow> bool" where
  "line_terminator c = ((of_char c :: nat) \<in> {10, 13})"

text \<open>
  The pattern \<^verbatim>\<open>/^Bearer (.+)$/\<close>: the header is \<^verbatim>\<open>Bearer \<close> followed by one or more
  characters up to its end, none of them a line terminator.
\<close>

definition extractBearer :: "request \<Rightarrow> string" where
  "extractBearer req =
     (let h = (case authorization req of None \<Rightarrow> [] | Some v \<Rightarrow> v)
      in if take 7 h = ''Bearer '' \<and> drop 7 h \<noteq> [] \<and> \<not> list_ex line_terminator (drop 7 h)
         then drop 7 h else [])"

definition verifyAdmin :: "env \<Rightarrow> jwt_verify \<Rightarrow> string \<Rightarrow> jwt_claims option" where
  "verifyAdmin e jwt_verify token =
     (if token = [] then None
      else case jwt_verify token (JWT_SECRET e) of
             None \<Rightarrow> None
           | Some payload \<Rightarrow> if role payload = Some ''admin'' then Some payload else None)"

text \<open>A guard either answers itself or hands the request on with \<^verbatim>\<open>req.user\<close> set.\<close>

datatype guarded = Rejected nat string | Next jwt_claims

definition unauthorized :: guarded where
  "unauthorized = Rejected 401 ''Unauthorized''"

definition requireAdmin :: "env \<Rightarrow> jwt_verify \<Rightarrow> request \<Rightarrow> guarded" where
  "requireAdmin e jwt_verify req =
     (case verifyAdmin e jwt_verify (extractBearer req) of
        None \<Rightarrow> unauthorized
      | Some payload \<Rightarrow> Next payload)"

definition requireAdminAllowQuery :: "env \<Rightarrow> jwt_verify \<Rightarrow> request \<Rightarrow> guarded" where
  "requireAdminAllowQuery e jwt_verify req =
     (let token = extractBearer req;
          token = (if token = [] then
                     (case query_token req of Some (JStr t) \<Rightarrow> t | _ \<Rightarrow> token)
                   else token)
      in case verifyAdmin e jwt_verify token of
           None \<Rightarrow> unauthorized
         | Some payload \<Rightarrow> Next payload)"

section \<open>The store\<close>

text \<open>
  The two tables of the schema, as the rows they hold, in insertion order.  A time stamp
  is the reading of the store's clock in microseconds.  Each table draws its \<open>id\<close>
  from a sequence (\<^verbatim>\<open>SERIAL\<close>); the record keeps the next value of each.
  \<open>urgency_column\<close> says whether the \<open>quotes\<close> table of this deployment has the
  optional column.
\<close>

type_synonym timestamp = int

record quote_row =
  q_id :: int
  q_name :: string
  q_treatment :: "string option"
  q_email :: string
  q_phone :: string
  q_whatsapp :: "string option"
  q_country :: "string option"
  q_urgency :: "string option"
  q_notes :: "string option"
  q_consent :: "bool option"
  q_status :: string
  q_created_at :: timestamp
  q_updated_at :: timestamp

record file_row =
  f_id :: int
  f_quote_id :: int
  f_original_name :: "string option"
  f_mime_type :: "string option"
  f_size :: "int option"
  f_path :: string
  f_created_at :: timestamp

record db =
  quotes :: "quote_row list"
  files :: "file_row list"
  quotes_id_seq :: int
  files_id_seq :: int
  urgency_column :: bool

text \<open>
  The statements the handlers send.  The store is taken to be reachable, and an \<open>id\<close>
  parameter is the integer its text denotes.  \<open>None\<close> is the store's refusal of a
  statement, on which \<open>query\<close> throws: of an update or a file lookup by an \<open>id\<close>
  outside the 32-bit range of the column, of a list with an offset outside the range of
  a 64-bit integer, and of an insert naming the \<open>urgency\<close> column where the table has
  none.
\<close>

definition int4 :: "int \<Rightarrow> bool" where
  "int4 i = (- 2147483648 \<le> i \<and> i \<le> 2147483647)"

text \<open>\<^verbatim>\<open>UPDATE quotes SET status=$1, updated_at=now() WHERE id=$2 RETURNING id, status, updated_at\<close>\<close>

definition set_status :: "string \<Rightarrow> timestamp \<Rightarrow> quote_row \<Rightarrow> quote_row" where
  "set_status st now r = r\<lparr>q_status := st, q_updated_at := now\<rparr>"

definition update_status ::
  "db \<Rightarrow> timestamp \<Rightarrow> string \<Rightarrow> int \<Rightarrow> ((int \<times> string \<times> timestamp) list \<times> db) option" where
  "update_status d now st i =
     (if \<not> int4 i then None
      else Some
        (map (\<lambda>r. (q_id r, q_status r, q_updated_at r))
             (map (set_status st now) (filter (\<lambda>r. q_id r = i) (quotes d))),
         d\<lparr>quotes := map (\<lambda>r. if q_id r = i then set_status st now r else r) (quotes d)\<rparr>))"

text \<open>The requests of an id: the rows of \<^verbatim>\<open>SELECT * FROM quotes WHERE id=$1\<close>.\<close>

definition select_quote :: "db \<Rightarrow> int \<Rightarrow> quote_row list" where
  "select_quote d i = filter (\<lambda>r. q_id r = i) (quotes d)"

text \<open>\<^verbatim>\<open>SELECT * FROM files WHERE id=$1\<close>\<close>

definition select_file :: "db \<Rightarrow> int \<Rightarrow> file_row list option" where
  "select_file d i = (if \<not> int4 i then None else Some (filter (\<lambda>f. f_id f = i) (files d)))"

text \<open>
  The values the submit handler binds, after validation.
\<close>

record quote_data =
  d_name :: string
  d_treatment :: "string option"
  d_email :: string
  d_phone :: string
  d_whatsapp :: "string option"
  d_country :: "string option"
  d_urgency :: "string option"
  d_notes :: "string option"
  d_consent :: "string option"

text \<open>
  \<^verbatim>\<open>INSERT INTO quotes (...) VALUES (...) RETURNING id, created_at\<close>.  The columns
  the statement does not name take their defaults: \<open>status\<close> is \<^verbatim>\<open>'pending'\<close>, and
  \<open>created_at\<close> and \<open>updated_at\<close> are both \<^verbatim>\<open>now()\<close>, one reading of the clock.
  \<open>with_urgency\<close> says whether the statement names the \<open>urgency\<close> column;
  \<open>None\<close> is the store's refusal.  \<open>or_null v\<close> is the value \<^verbatim>\<open>v || null\<close> that
  the handler binds for an optional text.
\<close>

definition or_null :: "string option \<Rightarrow> string option" where
  "or_null v = (case v of None \<Rightarrow> None | Some s \<Rightarrow> if s = [] then None else Some s)"

definition insert_quote ::
  "db \<Rightarrow> timestamp \<Rightarrow> bool \<Rightarrow> quote_data \<Rightarrow> bool \<Rightarrow> ((int \<times> timestamp) \<times> db) option" where
  "insert_quote d now with_urgency dat consent =
     (if with_urgency \<and> \<not> urgency_column d then None
      else
        let row = \<lparr>q_id = quotes_id_seq d,
                   q_name = d_name dat,
                   q_treatment = or_null (d_treatment dat),
                   q_email = d_email dat,
                   q_phone = d_phone dat,
                   q_whatsapp = or_null (d_whatsapp dat),
                   q_country = or_null (d_country dat),
                   q_urgency = (if with_urgency then or_null (d_urgency dat) else None),
                   q_notes = or_null (d_notes dat),
                   q_consent = Some consent,
                   q_status = ''pending'',
                   q_created_at = now,
                   q_updated_at = now\<rparr>
        in Some ((q_id row, q_created_at row),
                 d\<lparr>quotes := quotes d @ [row], quotes_id_seq := quotes_id_seq d + 1\<rparr>))"

text \<open>A file as the upload middleware hands it on in \<^verbatim>\<open>req.files\<close>.\<close>

record upload =
  fieldname :: string
  originalname :: string
  mimetype :: string
  size :: nat
  filename :: string

text \<open>\<^verbatim>\<open>INSERT INTO files (quote_id, original_name, mime_type, size, path) VALUES ($1,$2,$3,$4,$5)\<close>\<close>

definition insert_file :: "db \<Rightarrow> timestamp \<Rightarrow> int \<Rightarrow> upload \<Rightarrow> db" where
  "insert_file d now quoteId f =
     d\<lparr>files := files d @
          [\<lparr>f_id = files_id_seq d,
            f_quote_id = quoteId,
            f_original_name = Some (originalname f),
            f_mime_type = Some (mimetype f),
            f_size = Some (int (size f)),
            f_path = filename f,
            f_created_at = now\<rparr>],
       files_id_seq := files_id_seq d + 1\<rparr>"

text \<open>The loop over \<^verbatim>\<open>req.files\<close>.\<close>

fun insert_files :: "db \<Rightarrow> timestamp \<Rightarrow> int \<Rightarrow> upload list \<Rightarrow> db" where
  "insert_files d now quoteId [] = d"
| "insert_files d now quoteId (f # fs) = insert_files (insert_file d now quoteId f) now quoteId fs"

section \<open>server.js\<close>

text \<open>
  The zod library is not part of the repository.  Its e-mail format check is the
  parameter \<open>is_email\<close>; the other checks are written out.  \<open>None\<close> is a
  \<^verbatim>\<open>ZodError\<close>.
\<close>

text \<open>\<^verbatim>\<open>z.string()\<close> with a refinement, and the same made \<^verbatim>\<open>.optional()\<close>.\<close>

fun z_string :: "(string \<Rightarrow> bool) \<Rightarrow> jsval option \<Rightarrow> string option" where
  "z_string ok (Some (JStr s)) = (if ok s then Some s else None)"
| "z_string ok (Some (JArr xs)) = None"
| "z_string ok (Some (JObj keys)) = None"
| "z_string ok None = None"

fun z_optional :: "(string \<Rightarrow> bool) \<Rightarrow> jsval option \<Rightarrow> string option option" where
  "z_optional ok None = Some None"
| "z_optional ok (Some (JStr s)) = (if ok s then Some (Some s) else None)"
| "z_optional ok (Some (JArr xs)) = None"
| "z_optional ok (Some (JObj keys)) = None"

text \<open>
  The three values of the urgency control; their characters outside ASCII are written
  as the bytes of their UTF-8 encoding.
\<close>

definition urgency_values :: "string list" where
  "urgency_values =
     [''D'' @ [CHR 0xC3, CHR 0xA8] @ ''s que possible'',
      ''Dans 1'' @ [CHR 0xE2, CHR 0x80, CHR 0x93] @ ''3 mois'',
      ''Plus tard'']"

record quote_body =
  b_name :: "jsval option"
  b_treatment :: "jsval option"
  b_email :: "jsval option"
  b_phone :: "jsval option"
  b_whatsapp :: "jsval option"
  b_country :: "jsval option"
  b_urgency :: "jsval option"
  b_notes :: "jsval option"
  b_consent :: "jsval option"

definition QuoteSchema_parse :: "(string \<Rightarrow> bool) \<Rightarrow> quote_body \<Rightarrow> quote_data option" where
  "QuoteSchema_parse is_email b =
     Option.bind (z_string (\<lambda>s. 2 \<le> length s) (b_name b)) (\<lambda>name.
     Option.bind (z_optional (\<lambda>s. True) (b_treatment b)) (\<lambda>treatment.
     Option.bind (z_string is_email (b_email b)) (\<lambda>mail.
     Option.bind (z_string (\<lambda>s. 4 \<le> length s) (b_phone b)) (\<lambda>phone.
     Option.bind (z_optional (\<lambda>s. True) (b_whatsapp b)) (\<lambda>whatsapp.
     Option.bind (z_optional (\<lambda>s. True) (b_country b)) (\<lambda>country.
     Option.bind (z_optional (\<lambda>s. s \<in> set urgency_values) (b_urgency b)) (\<lambda>urgency.
     Option.bind (z_optional (\<lambda>s. length s \<le> 5000) (b_notes b)) (\<lambda>notes.
     Option.bind (z_optional (\<lambda>s. s \<in> set [''true'', ''false'']) (b_consent b)) (\<lambda>consent.
     Some \<lparr>d_name = name, d_treatment = treatment, d_email = mail, d_phone = phone,
           d_whatsapp = whatsapp, d_country = country, d_urgency = urgency,
           d_notes = notes, d_consent = consent\<rparr>)))))))))"

subsection \<open>Uploads\<close>

definition fileSize_limit :: nat where
  "fileSize_limit = 10 * 1024 * 1024"

definition files_limit :: nat where
  "files_limit = 10"

datatype multer_error = LIMIT_FILE_SIZE | LIMIT_FILE_COUNT | LIMIT_UNEXPECTED_FILE

text \<open>
  Modelled from the spec: the limit check of the multer library, which is not part of
  the repository.  A submission may carry up to 10 file parts of at most 10 MiB each;
  exceeding a limit rejects the whole request before the handler runs.  The limits are
  the ones the source configures, and \<open>field\<close> is the field \<^verbatim>\<open>upload.array\<close> names; a
  file part under another field is refused likewise.  The argument is the list of file
  parts of the request; \<open>Inl\<close> is the error multer passes to \<^verbatim>\<open>next\<close>.
\<close>

definition upload_array :: "string \<Rightarrow> upload list \<Rightarrow> multer_error + upload list" where
  "upload_array field parts =
     (if files_limit < length parts then Inl LIMIT_FILE_COUNT
      else if list_ex (\<lambda>f. fieldname f \<noteq> field) parts then Inl LIMIT_UNEXPECTED_FILE
      else if list_ex (\<lambda>f. fileSize_limit < size f) parts then Inl LIMIT_FILE_SIZE
      else Inr parts)"

subsection \<open>Submitting a quote\<close>

text \<open>
  \<open>HAS_URGENCY\<close> is the module's cache, \<open>None\<close> for \<^verbatim>\<open>null\<close>; the function returns
  its answer and the cache afterwards.
\<close>

definition hasUrgencyColumn :: "bool option \<Rightarrow> db \<Rightarrow> bool \<times> bool option" where
  "hasUrgencyColumn HAS_URGENCY d =
     (case HAS_URGENCY of
        Some b \<Rightarrow> (b, Some b)
      | None \<Rightarrow> (urgency_column d, Some (urgency_column d)))"

text \<open>
  The handler of \<^verbatim>\<open>POST /api/quotes/multipart\<close>, after the upload middleware.  All
  statements of one submission read the clock as \<open>now\<close>.
\<close>

definition submit_handler ::
  "(string \<Rightarrow> bool) \<Rightarrow> timestamp \<Rightarrow> quote_body \<Rightarrow> upload list \<Rightarrow> bool option \<times> db
     \<Rightarrow> int reply \<times> bool option \<times> db" where
  "submit_handler is_email now body fs st =
     (case st of (HAS_URGENCY, d) \<Rightarrow>
      (case QuoteSchema_parse is_email body of
        None \<Rightarrow> (Failure 400 ''Invalid payload'', HAS_URGENCY, d)
      | Some dat \<Rightarrow>
          let consent = (d_consent dat = Some ''true'');
              (has, cache) = hasUrgencyColumn HAS_URGENCY d
          in (case insert_quote d now has dat consent of
                None \<Rightarrow> (Failure 500 ''Server error'', cache, d)
              | Some ((quoteId, created), d') \<Rightarrow>
                  (Success quoteId, cache, insert_files d' now quoteId fs))))"

text \<open>The global error guard: whatever error reaches it, the answer is the same.\<close>

definition error_guard :: "multer_error \<Rightarrow> 'a reply" where
  "error_guard err = Failure 500 ''Server error''"

text \<open>
  The route: the upload middleware, then the handler, an error of the middleware going
  to the global error guard.  The rate limiter in front is taken to let the request pass.
\<close>

definition submit_route ::
  "(string \<Rightarrow> bool) \<Rightarrow> timestamp \<Rightarrow> quote_body \<Rightarrow> upload list \<Rightarrow> bool option \<times> db
     \<Rightarrow> int reply \<times> bool option \<times> db" where
  "submit_route is_email now body parts st =
     (case upload_array ''files'' parts of
        Inl err \<Rightarrow> (error_guard err, st)
      | Inr fs \<Rightarrow> submit_handler is_email now body fs st)"

subsection \<open>Login\<close>

definition LoginSchema_parse ::
  "(string \<Rightarrow> bool) \<Rightarrow> jsval option \<times> jsval option \<Rightarrow> (string \<times> string) option" where
  "LoginSchema_parse is_email b =
     Option.bind (z_string is_email (fst b)) (\<lambda>mail.
     Option.bind (z_string (\<lambda>s. 1 \<le> length s) (snd b)) (\<lambda>password.
     Some (mail, password)))"

text \<open>The body of a login request is its \<open>email\<close> and \<open>password\<close> fields.\<close>

definition login_handler ::
  "env \<Rightarrow> jwt_sign \<Rightarrow> (string \<Rightarrow> string) \<Rightarrow> (string \<Rightarrow> bool)
     \<Rightarrow> jsval option \<times> jsval option \<Rightarrow> string reply" where
  "login_handler e jwt_sign lower is_email b =
     (case LoginSchema_parse is_email b of
        None \<Rightarrow> Failure 400 ''Invalid login payload''
      | Some (mail, password) \<Rightarrow>
          (case login e jwt_sign lower mail password of
             None \<Rightarrow> Failure 401 ''Bad credentials''
           | Some token \<Rightarrow>
               if token = [] then Failure 401 ''Bad credentials'' else Success token))"

subsection \<open>Quote details\<close>

text \<open>
  The handler of \<^verbatim>\<open>GET /api/admin/quotes/:id\<close>: the first request of the id with the
  \<open>id\<close>, \<open>original_name\<close>, \<open>mime_type\<close> and \<open>size\<close> of its files.
\<close>

definition detail_handler ::
  "db \<Rightarrow> int \<Rightarrow> (quote_row \<times> (int \<times> string option \<times> string option \<times> int option) list) reply" where
  "detail_handler d i =
     (case select_quote d i of
        [] \<Rightarrow> Failure 404 ''Not found''
      | quote # rows \<Rightarrow>
          Success (quote,
            map (\<lambda>f. (f_id f, f_original_name f, f_mime_type f, f_size f))
                (filter (\<lambda>f. f_quote_id f = q_id quote) (files d))))"

subsection \<open>Listing quotes\<close>

definition allowedStatuses :: "string list" where
  "allowedStatuses =
     [''pending'', ''reviewing'', ''quoted'', ''scheduled'', ''closed'', ''cancelled'']"

record list_query =
  query_status :: "jsval option"
  query_q :: "jsval option"
  query_limit :: "jsval option"
  query_offset :: "jsval option"

text \<open>
  The string \<^verbatim>\<open>parseInt\<close> reads: \<^verbatim>\<open>String(v)\<close>, also for \<open>undefined\<close>;
  \<open>None\<close> where the conversion throws.
\<close>

definition ToString :: "jsval option \<Rightarrow> string option" where
  "ToString v = (case v of None \<Rightarrow> Some ''undefined'' | Some x \<Rightarrow> js_toString x)"

definition digit :: "char \<Rightarrow> bool" where
  "digit c = (48 \<le> (of_char c :: nat) \<and> (of_char c :: nat) \<le> 57)"

definition digits_value :: "string \<Rightarrow> nat" where
  "digits_value z = foldl (\<lambda>a c. 10 * a + ((of_char c :: nat) - 48)) 0 z"

text \<open>
  \<^verbatim>\<open>parseInt(s, 10)\<close>: leading white space is skipped, one sign is read, then the
  longest run of decimal digits; \<open>None\<close> is \<^verbatim>\<open>NaN\<close>.  The value is the exact
  integer (JavaScript rounds it to a double beyond \<open>2^53\<close>).
\<close>

definition parseInt :: "string \<Rightarrow> int option" where
  "parseInt s =
     (let t = dropWhile white_space s;
          negative = (t \<noteq> [] \<and> hd t = CHR ''-'');
          u = (if t \<noteq> [] \<and> (hd t = CHR ''+'' \<or> hd t = CHR ''-'') then tl t else t);
          z = takeWhile digit u
      in if z = [] then None
         else Some (if negative then - int (digits_value z) else int (digits_value z)))"

text \<open>\<^verbatim>\<open>n || d\<close> for a number: \<^verbatim>\<open>NaN\<close> and \<open>0\<close> are falsy.\<close>

definition or_default :: "int option \<Rightarrow> int \<Rightarrow> int" where
  "or_default n d = (case n of None \<Rightarrow> d | Some k \<Rightarrow> if k = 0 then d else k)"

definition list_status :: "list_query \<Rightarrow> string option" where
  "list_status qu =
     (case query_status qu of
        Some (JStr s) \<Rightarrow> if s \<in> set allowedStatuses then Some s else None
      | _ \<Rightarrow> None)"

text \<open>
  The query text, the limit and the offset the handler computes; each is \<open>None\<close>
  where the string conversion of the parameter throws.
\<close>

definition list_q :: "list_query \<Rightarrow> string option" where
  "list_q qu =
     map_option (\<lambda>s. toLowerCase (trim s))
       (case query_q qu of None \<Rightarrow> Some [] | Some v \<Rightarrow> js_toString v)"

definition list_limit :: "list_query \<Rightarrow> int option" where
  "list_limit qu =
     map_option (\<lambda>s. max 1 (min 200 (or_default (parseInt s) 20))) (ToString (query_limit qu))"

definition list_offset :: "list_query \<Rightarrow> int option" where
  "list_offset qu =
     map_option (\<lambda>s. max 0 (or_default (parseInt s) 0)) (ToString (query_offset qu))"

text \<open>
  \<open>like_match pattern text\<close> is the store's \<^verbatim>\<open>text LIKE pattern\<close>: \<^verbatim>\<open>%\<close> stands for
  any run of characters, \<^verbatim>\<open>_\<close> for any one character, and a backslash makes the
  character after it stand for itself.  The store raises an error on a pattern that
  ends in a lone backslash; the equations give \<open>False\<close> there.
\<close>

fun like_match :: "string \<Rightarrow> string \<Rightarrow> bool" where
  "like_match [] [] = True"
| "like_match [] (c # cs) = False"
| "like_match (p # ps) [] = (p = CHR ''%'' \<and> like_match ps [])"
| "like_match (p # ps) (c # cs) =
     (if p = CHR ''%'' then like_match ps (c # cs) \<or> like_match (p # ps) cs
      else if p = CHR ''_'' then like_match ps cs
      else if p = CHR 0x5C then (case ps of [] \<Rightarrow> False | e # es \<Rightarrow> e = c \<and> like_match es cs)
      else p = c \<and> like_match ps cs)"

text \<open>A pattern that ends in a backslash with no character left for it to escape.\<close>

fun lone_backslash :: "string \<Rightarrow> bool" where
  "lone_backslash [] = False"
| "lone_backslash [c] = (c = CHR 0x5C)"
| "lone_backslash (c # e # cs) = (if c = CHR 0x5C then lone_backslash cs else lone_backslash (e # cs))"

text \<open>The characters that do not stand for themselves in a pattern.\<close>

definition meta_char :: "char \<Rightarrow> bool" where
  "meta_char c = (c = CHR ''%'' \<or> c = CHR ''_'' \<or> c = CHR 0x5C)"

definition coalesce :: "string option \<Rightarrow> string \<Rightarrow> string" where
  "coalesce v d = (case v of None \<Rightarrow> d | Some s \<Rightarrow> s)"

text \<open>The \<^verbatim>\<open>WHERE\<close> clause the handler builds; \<^verbatim>\<open>LOWER\<close> is \<open>toLowerCase\<close>.\<close>

definition where_clause :: "string option \<Rightarrow> string \<Rightarrow> quote_row \<Rightarrow> bool" where
  "where_clause status q r =
     ((case status of None \<Rightarrow> True | Some s \<Rightarrow> q_status r = s) \<and>
      (if q = [] then True
       else let pat = ''%'' @ q @ ''%''
            in like_match pat (toLowerCase (q_name r)) \<or>
               like_match pat (toLowerCase (q_email r)) \<or>
               like_match pat (toLowerCase (coalesce (q_notes r) []))))"

record summary =
  s_id :: int
  s_name :: string
  s_treatment :: "string option"
  s_status :: string
  s_created_at :: timestamp
  s_snippet :: string

definition summary_of :: "quote_row \<Rightarrow> summary" where
  "summary_of r =
     \<lparr>s_id = q_id r, s_name = q_name r, s_treatment = q_treatment r, s_status = q_status r,
      s_created_at = q_created_at r, s_snippet = take 160 (coalesce (q_notes r) [])\<rparr>"

text \<open>
  \<^verbatim>\<open>SELECT ... FROM quotes WHERE ... ORDER BY created_at DESC LIMIT $n OFFSET $m\<close>.
  Rows of equal \<open>created_at\<close>, which the store may return in any order, are kept in
  insertion order.
\<close>

definition select_quotes :: "db \<Rightarrow> string option \<Rightarrow> string \<Rightarrow> int \<Rightarrow> int \<Rightarrow> quote_row list" where
  "select_quotes d status q limit offset =
     take (nat limit) (drop (nat offset)
       (sort_key (\<lambda>r. - q_created_at r) (filter (where_clause status q) (quotes d))))"

text \<open>
  The store reads the offset as a 64-bit integer and refuses a larger one.  The offset
  sent is a double, printed in decimal: it is \<open>2^63\<close> or more, and refused, from the
  integer \<open>2^63 - 512\<close> on, which rounds to \<open>2^63\<close>.
\<close>

definition offset_refused :: "int \<Rightarrow> bool" where
  "offset_refused offset = (9223372036854775296 \<le> offset)"

text \<open>
  The handler of \<^verbatim>\<open>GET /api/admin/quotes\<close>.  What is thrown while the parameters are
  read or by \<open>query\<close> is caught and answered with 500.
\<close>

definition list_handler :: "db \<Rightarrow> list_query \<Rightarrow> summary list reply" where
  "list_handler d qu =
     (case list_q qu of
        None \<Rightarrow> Failure 500 ''Server error''
      | Some q \<Rightarrow>
          (case list_limit qu of
             None \<Rightarrow> Failure 500 ''Server error''
           | Some limit \<Rightarrow>
               (case list_offset qu of
                  None \<Rightarrow> Failure 500 ''Server error''
                | Some offset \<Rightarrow>
                    if offset_refused offset then Failure 500 ''Server error''
                    else Success (map summary_of
                           (select_quotes d (list_status qu) q limit offset)))))"

subsection \<open>Updating a status\<close>

definition allowed :: "string list" where
  "allowed = [''pending'', ''reviewing'', ''quoted'', ''scheduled'', ''closed'', ''cancelled'']"

text \<open>
  \<^verbatim>\<open>(req.body?.status || '').toString()\<close>; \<open>None\<close> where the conversion throws.
\<close>

definition body_status :: "jsval option \<Rightarrow> string option" where
  "body_status v = (if truthy v then ToString v else Some [])"

text \<open>
  A \<^verbatim>\<open>Date\<close> of JavaScript, in milliseconds.  The driver hands a time stamp of the
  store to the handler as a \<^verbatim>\<open>Date\<close>, and that is what the reply carries;
  \<open>to_date\<close> is the driver's conversion, which is not part of the repository.
\<close>

type_synonym js_date = int

text \<open>
  The handler of \<^verbatim>\<open>PATCH /api/admin/quotes/:id/status\<close>; \<open>i\<close> is the integer
  \<^verbatim>\<open>req.params.id\<close> denotes and \<open>v\<close> is \<^verbatim>\<open>req.body?.status\<close>.  What is thrown
  by the conversion of the status or by \<open>query\<close> is caught and answered with 500.
\<close>

definition status_handler ::
  "(timestamp \<Rightarrow> js_date) \<Rightarrow> db \<Rightarrow> timestamp \<Rightarrow> int \<Rightarrow> jsval option
     \<Rightarrow> (int \<times> string \<times> js_date) reply \<times> db" where
  "status_handler to_date d now i v =
     (case body_status v of
        None \<Rightarrow> (Failure 500 ''Server error'', d)
      | Some status \<Rightarrow>
          if status \<notin> set allowed then (Failure 400 ''Bad status'', d)
          else (case update_status d now status i of
                  None \<Rightarrow> (Failure 500 ''Server error'', d)
                | Some ([], d') \<Rightarrow> (Failure 404 ''Not found'', d')
                | Some ((row_id, row_status, row_updated_at) # rows, d') \<Rightarrow>
                    (Success (row_id, row_status, to_date row_updated_at), d')))"


subsection \<open>Downloading a file\<close>

definition UPLOAD_DIR :: "env \<Rightarrow> string" where
  "UPLOAD_DIR e =
     (case e ''UPLOAD_DIR'' of None \<Rightarrow> ''/data/uploads''
      | Some v \<Rightarrow> if v = [] then ''/data/uploads'' else v)"

text \<open>What a successful download sets: the type given to \<^verbatim>\<open>res.type\<close>, the
  \<^verbatim>\<open>Content-Disposition\<close> header, and the path of the file streamed.\<close>

record download =
  content_type :: string
  content_disposition :: string
  streamed :: string

text \<open>
  \<open>mime_lookup\<close> is \<^verbatim>\<open>mime.lookup\<close> (\<open>None\<close> for \<^verbatim>\<open>false\<close>) and \<open>encode\<close> is
  \<^verbatim>\<open>encodeURIComponent\<close>, both on a text; neither is part of the repository.  A
  \<^verbatim>\<open>null\<close> name has no type, and is encoded as the text \<^verbatim>\<open>null\<close>.
\<close>

definition file_type :: "(string \<Rightarrow> string option) \<Rightarrow> file_row \<Rightarrow> string" where
  "file_type mime_lookup f =
     (case or_null (f_mime_type f) of
        Some t \<Rightarrow> t
      | None \<Rightarrow>
          (case or_null (Option.bind (f_original_name f) mime_lookup) of
             Some t \<Rightarrow> t
           | None \<Rightarrow> ''application/octet-stream''))"

text \<open>
  The handler of \<^verbatim>\<open>GET /api/admin/files/:id\<close>; \<open>disk\<close> is the set of paths at which
  a file exists, and \<open>i\<close> is the integer \<^verbatim>\<open>req.params.id\<close> denotes.  What \<open>query\<close>
  throws is caught and answered with 500.
\<close>

definition file_handler ::
  "env \<Rightarrow> (string \<Rightarrow> string option) \<Rightarrow> (string \<Rightarrow> string) \<Rightarrow> string set \<Rightarrow> db \<Rightarrow> int
     \<Rightarrow> download reply" where
  "file_handler e mime_lookup encode disk d i =
     (case select_file d i of
        None \<Rightarrow> Failure 500 ''Server error''
      | Some [] \<Rightarrow> Failure 404 ''Not found''
      | Some (f # rows) \<Rightarrow>
          let full = UPLOAD_DIR e @ ''/'' @ f_path f
          in if full \<notin> disk then Failure 404 ''Missing file''
             else Success
                    \<lparr>content_type = file_type mime_lookup f,
                     content_disposition =
                       ''inline; filename='' @ [CHR 0x22] @
                       encode (coalesce (f_original_name f) ''null'') @ [CHR 0x22],
                     streamed = full\<rparr>)"

section \<open>Concrete data\<close>

text \<open>A deployment, a token library and a format check to evaluate the functions on.\<close>

definition example_env :: env where
  "example_env = [''ADMIN_EMAIL'' \<mapsto> ''Admin@Smile.tn'', ''ADMIN_PASSWORD'' \<mapsto> ''s3cret'']"

definition example_sign :: jwt_sign where
  "example_sign payload secret expiresIn = ''tok:'' @ secret"

definition example_verify :: jwt_verify where
  "example_verify token secret =
     (if token = ''good'' \<and> secret = ''dev-secret-change-me''
      then Some \<lparr>sub = Some ''admin'', role = Some ''admin'', email = Some ''Admin@Smile.tn''\<rparr>
      else None)"

definition example_is_email :: "string \<Rightarrow> bool" where
  "example_is_email s = (CHR ''@'' \<in> set s)"

text \<open>A conversion of time stamps to dates that cuts the microseconds off.\<close>

definition to_millis :: "timestamp \<Rightarrow> js_date" where
  "to_millis t = t div 1000"

text \<open>A store holding one request.\<close>

definition example_row :: quote_row where
  "example_row =
     \<lparr>q_id = 1, q_name = ''Jane Doe'', q_treatment = None, q_email = ''jane.doe@example.com'',
      q_phone = ''123456'', q_whatsapp = None, q_country = None, q_urgency = None,
      q_notes = None, q_consent = Some False, q_status = ''pending'',
      q_created_at = 5, q_updated_at = 5\<rparr>"

definition example_db :: db where
  "example_db =
     \<lparr>quotes = [example_row], files = [], quotes_id_seq = 2, files_id_seq = 1,
      urgency_column = False\<rparr>"


text \<open>A submission, a small attachment and one of 15 MiB.\<close>

definition example_body :: quote_body where
  "example_body =
     \<lparr>b_name = Some (JStr ''Jane Doe''), b_treatment = None,
      b_email = Some (JStr ''jane@example.com''), b_phone = Some (JStr ''123456''),
      b_whatsapp = None, b_country = None, b_urgency = None, b_notes = None,
      b_consent = Some (JStr ''false'')\<rparr>"

definition example_file :: upload where
  "example_file =
     \<lparr>fieldname = ''files'', originalname = ''xray.PNG'', mimetype = ''image/png'',
      size = 2048, filename = ''0b5e.png''\<rparr>"

definition big_file :: upload where
  "big_file =
     \<lparr>fieldname = ''files'', originalname = ''scan.png'', mimetype = ''image/png'',
      size = 15 * 1024 * 1024, filename = ''77aa.png''\<rparr>"


text \<open>A store with one attachment, one with two requests, and list queries.\<close>

definition example_file_row :: file_row where
  "example_file_row =
     \<lparr>f_id = 1, f_quote_id = 1, f_original_name = Some ''xray.PNG'',
      f_mime_type = Some ''image/png'', f_size = Some 2048, f_path = ''0b5e.png'',
      f_created_at = 5\<rparr>"

definition example_db_file :: db where
  "example_db_file = example_db\<lparr>files := [example_file_row], files_id_seq := 2\<rparr>"

definition second_row :: quote_row where
  "second_row =
     \<lparr>q_id = 2, q_name = ''Omar B.'', q_treatment = Some ''implants'', q_email = ''omar@example.org'',
      q_phone = ''0021650'', q_whatsapp = None, q_country = Some ''FR'', q_urgency = None,
      q_notes = Some ''Two implants, upper jaw'', q_consent = Some True, q_status = ''quoted'',
      q_created_at = 7, q_updated_at = 8\<rparr>"

definition two_quotes :: db where
  "two_quotes = example_db\<lparr>quotes := [example_row, second_row], quotes_id_seq := 3\<rparr>"

definition paging :: "string \<Rightarrow> string \<Rightarrow> list_query" where
  "paging l off =
     \<lparr>query_status = None, query_q = None, query_limit = Some (JStr l),
      query_offset = Some (JStr off)\<rparr>"

definition underscore_query :: list_query where
  "underscore_query =
     \<lparr>query_status = None, query_q = Some (JStr ''jane_doe''),
      query_limit = None, query_offset = None\<rparr>"


section \<open>Properties of the authorization boundary\<close>

lemma example_env_simps:
  "ADMIN_EMAIL example_env = ''Admin@Smile.tn''"
  "ADMIN_PASSWORD example_env = ''s3cret''"
  "JWT_SECRET example_env = ''dev-secret-change-me''"
  by (simp_all add: example_env_def ADMIN_EMAIL_def ADMIN_PASSWORD_def JWT_SECRET_def)

lemma z_string_Some: "z_string ok v = Some s \<Longrightarrow> ok s \<and> v = Some (JStr s)"
  by (induction ok v rule: z_string.induct) (auto split: if_splits)

lemma LoginSchema_parse_Some:
  assumes "LoginSchema_parse is_email b = Some (mail, password)"
  shows "is_email mail" and "password \<noteq> []"
proof -
  from assms obtain x where x: "z_string is_email (fst b) = Some x"
    by (cases "z_string is_email (fst b)") (simp_all add: LoginSchema_parse_def)
  from assms x obtain y where y: "z_string (\<lambda>s. 1 \<le> length s) (snd b) = Some y"
    by (cases "z_string (\<lambda>s. 1 \<le> length s) (snd b)") (simp_all add: LoginSchema_parse_def)
  from assms x y have xy: "x = mail" "y = password"
    by (simp_all add: LoginSchema_parse_def)
  show "is_email mail"
    using z_string_Some [OF x] xy(1) by simp
  show "password \<noteq> []"
    using z_string_Some [OF y] xy(2) by auto
qed

lemma login_handler_valid:
  "LoginSchema_parse is_email b = Some (mail, password) \<Longrightarrow>
   login_handler e jwt_sign lower is_email b =
     (case login e jwt_sign lower mail password of
        None \<Rightarrow> Failure 401 ''Bad credentials''
      | Some token \<Rightarrow> if token = [] then Failure 401 ''Bad credentials'' else Success token)"
  by (simp add: login_handler_def)

text \<open>
  C7.  Take a login request that passes the payload check, a format check that refuses
  the empty text and a token library whose token for the administrator is not empty.
  The request is answered with that token exactly when the administrator's e-mail is
  configured, the e-mail given equals it up to case (after the runtime's conversion to
  lower case) and the password given equals the configured one; otherwise the answer is
  401 with the message \<^verbatim>\<open>Bad credentials\<close>.  Any other request that passes the payload
  check and is not answered with a token, under whichever configuration, gets the very
  answer of a refusal of the first.
\<close>

theorem login_uniform:
  "\<not> is_email [] \<and> LoginSchema_parse is_email b = Some (mail, password) \<and>
   jwt_sign \<lparr>sub = Some ''admin'', role = Some ''admin'', email = Some (ADMIN_EMAIL e)\<rparr>
     (JWT_SECRET e) ''7d'' = token \<and> token \<noteq> []
   \<longrightarrow>
   login_handler e jwt_sign lower is_email b =
     (if ADMIN_EMAIL e \<noteq> [] \<and> lower mail = lower (ADMIN_EMAIL e) \<and> password = ADMIN_PASSWORD e
      then Success token else Failure 401 ''Bad credentials'') \<and>
   (LoginSchema_parse is_email' b' \<noteq> None \<and>
    (\<forall>t. login_handler e' jwt_sign' lower' is_email' b' \<noteq> Success t) \<and>
    login_handler e jwt_sign lower is_email b \<noteq> Success token
    \<longrightarrow> login_handler e' jwt_sign' lower' is_email' b' = login_handler e jwt_sign lower is_email b)"
proof (intro impI, elim conjE)
  assume ne: "\<not> is_email []"
    and parse: "LoginSchema_parse is_email b = Some (mail, password)"
    and tok: "jwt_sign \<lparr>sub = Some ''admin'', role = Some ''admin'', email = Some (ADMIN_EMAIL e)\<rparr>
                (JWT_SECRET e) ''7d'' = token"
    and tok_ne: "token \<noteq> []"
  have mail: "mail \<noteq> []" and pw: "password \<noteq> []"
    using LoginSchema_parse_Some [OF parse] ne by auto
  let ?ok = "ADMIN_EMAIL e \<noteq> [] \<and> lower mail = lower (ADMIN_EMAIL e) \<and> password = ADMIN_PASSWORD e"
  have l: "login e jwt_sign lower mail password = (if ?ok then Some token else None)"
    using mail pw tok by (auto simp: login_def)
  have first: "login_handler e jwt_sign lower is_email b =
     (if ?ok then Success token else Failure 401 ''Bad credentials'')"
    using tok_ne by (simp add: login_handler_valid [OF parse] l)
  have second: "LoginSchema_parse is_email' b' \<noteq> None \<and>
    (\<forall>t. login_handler e' jwt_sign' lower' is_email' b' \<noteq> Success t) \<and>
    login_handler e jwt_sign lower is_email b \<noteq> Success token
    \<longrightarrow> login_handler e' jwt_sign' lower' is_email' b' = login_handler e jwt_sign lower is_email b"
  proof (intro impI, elim conjE)
    assume p': "LoginSchema_parse is_email' b' \<noteq> None"
      and no: "\<forall>t. login_handler e' jwt_sign' lower' is_email' b' \<noteq> Success t"
      and refused: "login_handler e jwt_sign lower is_email b \<noteq> Success token"
    from p' obtain m' w' where "LoginSchema_parse is_email' b' = Some (m', w')" by auto
    then have "login_handler e' jwt_sign' lower' is_email' b' = Failure 401 ''Bad credentials''"
      using no
      by (auto simp: login_handler_valid split: option.splits if_splits)
    moreover have "login_handler e jwt_sign lower is_email b = Failure 401 ''Bad credentials''"
      using first refused by (simp split: if_splits)
    ultimately show "login_handler e' jwt_sign' lower' is_email' b' = login_handler e jwt_sign lower is_email b"
      by simp
  qed
  from first second
  show "login_handler e jwt_sign lower is_email b =
     (if ?ok then Success token else Failure 401 ''Bad credentials'') \<and>
   (LoginSchema_parse is_email' b' \<noteq> None \<and>
    (\<forall>t. login_handler e' jwt_sign' lower' is_email' b' \<noteq> Success t) \<and>
    login_handler e jwt_sign lower is_email b \<noteq> Success token
    \<longrightarrow> login_handler e' jwt_sign' lower' is_email' b' = login_handler e jwt_sign lower is_email b)"
    by (rule conjI)
qed

lemma example_login_parse:
  "LoginSchema_parse example_is_email (Some (JStr ''admin@SMILE.tn''), Some (JStr ''s3cret''))
     = Some (''admin@SMILE.tn'', ''s3cret'')"
  "LoginSchema_parse example_is_email (Some (JStr ''admin@SMILE.tn''), Some (JStr ''S3CRET''))
     = Some (''admin@SMILE.tn'', ''S3CRET'')"
  "LoginSchema_parse example_is_email (Some (JStr ''nobody@example.com''), Some (JStr ''s3cret''))
     = Some (''nobody@example.com'', ''s3cret'')"
  by (simp_all add: LoginSchema_parse_def example_is_email_def)

lemma example_lower:
  "toLowerCase ''admin@SMILE.tn'' = toLowerCase ''Admin@Smile.tn''"
  "toLowerCase ''nobody@example.com'' \<noteq> toLowerCase ''Admin@Smile.tn''"
  by code_simp+

theorem login_uniform_witness:
  "\<not> example_is_email [] \<and>
   example_sign \<lparr>sub = Some ''admin'', role = Some ''admin'', email = Some ''Admin@Smile.tn''\<rparr>
     ''dev-secret-change-me'' ''7d'' = ''tok:dev-secret-change-me'' \<and>
   login_handler example_env example_sign toLowerCase example_is_email
     (Some (JStr ''admin@SMILE.tn''), Some (JStr ''s3cret'')) = Success ''tok:dev-secret-change-me'' \<and>
   login_handler example_env example_sign toLowerCase example_is_email
     (Some (JStr ''admin@SMILE.tn''), Some (JStr ''S3CRET'')) = Failure 401 ''Bad credentials'' \<and>
   login_handler example_env example_sign toLowerCase example_is_email
     (Some (JStr ''nobody@example.com''), Some (JStr ''s3cret'')) = Failure 401 ''Bad credentials'' \<and>
   login_handler Map.empty example_sign toLowerCase example_is_email
     (Some (JStr ''admin@SMILE.tn''), Some (JStr ''s3cret'')) = Failure 401 ''Bad credentials'' \<and>
   login_handler Map.empty example_sign toLowerCase example_is_email
     (Some (JStr ''admin@SMILE.tn''), Some (JStr ''s3cret''))
     = login_handler example_env example_sign toLowerCase example_is_email
         (Some (JStr ''admin@SMILE.tn''), Some (JStr ''S3CRET''))"
proof -
  let ?tok = "''tok:dev-secret-change-me''"
  let ?good = "(Some (JStr ''admin@SMILE.tn''), Some (JStr ''s3cret''))"
  let ?wrong_pw = "(Some (JStr ''admin@SMILE.tn''), Some (JStr ''S3CRET''))"
  let ?wrong_mail = "(Some (JStr ''nobody@example.com''), Some (JStr ''s3cret''))"
  have ne: "\<not> example_is_email []" by (simp add: example_is_email_def)
  have tok: "example_sign \<lparr>sub = Some ''admin'', role = Some ''admin'', email = Some ''Admin@Smile.tn''\<rparr>
     ''dev-secret-change-me'' ''7d'' = ?tok"
    by (simp add: example_sign_def)
  have tok1: "example_sign
       \<lparr>sub = Some ''admin'', role = Some ''admin'', email = Some (ADMIN_EMAIL example_env)\<rparr>
       (JWT_SECRET example_env) ''7d'' = ?tok"
    by (simp add: example_sign_def example_env_simps)
  have tok0: "example_sign
       \<lparr>sub = Some ''admin'', role = Some ''admin'', email = Some (ADMIN_EMAIL Map.empty)\<rparr>
       (JWT_SECRET Map.empty) ''7d'' = ?tok"
    by (simp add: example_sign_def JWT_SECRET_def)
  have tn: "?tok \<noteq> []" by simp
  have env0: "ADMIN_EMAIL Map.empty = []" by (simp add: ADMIN_EMAIL_def)
  have good: "login_handler example_env example_sign toLowerCase example_is_email ?good = Success ?tok"
    using login_uniform [of example_is_email ?good "''admin@SMILE.tn''" "''s3cret''" example_sign
        example_env ?tok toLowerCase]
      ne example_login_parse(1) tok1 tn example_lower(1)
    by (simp add: example_env_simps)
  have wrong_pw: "login_handler example_env example_sign toLowerCase example_is_email ?wrong_pw
      = Failure 401 ''Bad credentials''"
    using login_uniform [of example_is_email ?wrong_pw "''admin@SMILE.tn''" "''S3CRET''" example_sign
        example_env ?tok toLowerCase]
      ne example_login_parse(2) tok1 tn
    by (simp add: example_env_simps)
  have wrong_mail: "login_handler example_env example_sign toLowerCase example_is_email ?wrong_mail
      = Failure 401 ''Bad credentials''"
    using login_uniform [of example_is_email ?wrong_mail "''nobody@example.com''" "''s3cret''"
        example_sign example_env ?tok toLowerCase]
      ne example_login_parse(3) tok1 tn example_lower(2)
    by (simp add: example_env_simps)
  have unconfigured: "login_handler Map.empty example_sign toLowerCase example_is_email ?good
      = Failure 401 ''Bad credentials''"
    using login_uniform [of example_is_email ?good "''admin@SMILE.tn''" "''s3cret''" example_sign
        Map.empty ?tok toLowerCase]
      ne example_login_parse(1) tok0 tn
    by (simp add: env0)
  have prem: "\<not> example_is_email [] \<and>
      LoginSchema_parse example_is_email ?wrong_pw = Some (''admin@SMILE.tn'', ''S3CRET'') \<and>
      example_sign
        \<lparr>sub = Some ''admin'', role = Some ''admin'', email = Some (ADMIN_EMAIL example_env)\<rparr>
        (JWT_SECRET example_env) ''7d'' = ?tok \<and> ?tok \<noteq> []"
    using ne example_login_parse(2) tok1 tn by blast
  have other: "LoginSchema_parse example_is_email ?good \<noteq> None \<and>
      (\<forall>t. login_handler Map.empty example_sign toLowerCase example_is_email ?good \<noteq> Success t) \<and>
      login_handler example_env example_sign toLowerCase example_is_email ?wrong_pw \<noteq> Success ?tok"
    by (simp only: example_login_parse(1) unconfigured wrong_pw) simp
  have same: "login_handler Map.empty example_sign toLowerCase example_is_email ?good
      = login_handler example_env example_sign toLowerCase example_is_email ?wrong_pw"
    by (rule login_uniform [of example_is_email ?wrong_pw "''admin@SMILE.tn''" "''S3CRET''"
          example_sign example_env ?tok toLowerCase example_is_email ?good Map.empty example_sign
          toLowerCase, THEN mp, OF prem, THEN conjunct2, THEN mp, OF other])
  show ?thesis
    by (intro conjI) (rule ne tok good wrong_pw wrong_mail unconfigured same)+
qed

lemma verifyAdmin_Nil: "verifyAdmin e jwt_verify [] = None"
  by (simp add: verifyAdmin_def)

lemma extractBearer_no_header: "authorization req = None \<Longrightarrow> extractBearer req = []"
  by (simp add: extractBearer_def)

lemma example_verify_good:
  "verifyAdmin example_env example_verify ''good'' =
     Some \<lparr>sub = Some ''admin'', role = Some ''admin'', email = Some ''Admin@Smile.tn''\<rparr>"
  by (simp add: verifyAdmin_def example_verify_def JWT_SECRET_def example_env_def)

text \<open>
  C8.  A token that \<open>verifyAdmin\<close> accepts, presented in the \<open>token\<close> query
  parameter of a request without Authorization header, passes the lenient guard, and the
  strict guard answers the same request with 401.
\<close>

theorem query_token_lenient_only:
  "verifyAdmin e jwt_verify t = Some payload \<Longrightarrow>
   requireAdminAllowQuery e jwt_verify \<lparr>authorization = None, query_token = Some (JStr t)\<rparr>
     = Next payload \<and>
   requireAdmin e jwt_verify \<lparr>authorization = None, query_token = Some (JStr t)\<rparr>
     = Rejected 401 ''Unauthorized''"
  by (simp add: requireAdminAllowQuery_def requireAdmin_def extractBearer_no_header
      verifyAdmin_Nil unauthorized_def)

theorem query_token_lenient_only_witness:
  "verifyAdmin example_env example_verify ''good'' =
     Some \<lparr>sub = Some ''admin'', role = Some ''admin'', email = Some ''Admin@Smile.tn''\<rparr> \<and>
   requireAdminAllowQuery example_env example_verify
     \<lparr>authorization = None, query_token = Some (JStr ''good'')\<rparr>
     = Next \<lparr>sub = Some ''admin'', role = Some ''admin'', email = Some ''Admin@Smile.tn''\<rparr> \<and>
   requireAdmin example_env example_verify
     \<lparr>authorization = None, query_token = Some (JStr ''good'')\<rparr>
     = Rejected 401 ''Unauthorized''"
  using example_verify_good query_token_lenient_only [OF example_verify_good] by simp

lemma extractBearer_header:
  "t \<noteq> [] \<Longrightarrow> \<not> list_ex line_terminator t \<Longrightarrow>
   extractBearer \<lparr>authorization = Some (''Bearer '' @ t), query_token = qt\<rparr> = t"
  by (simp add: extractBearer_def)

lemma lenient_header_first:
  "extractBearer req \<noteq> [] \<Longrightarrow>
   requireAdminAllowQuery e jwt_verify req =
     (case verifyAdmin e jwt_verify (extractBearer req) of
        None \<Rightarrow> unauthorized | Some payload \<Rightarrow> Next payload)"
  by (simp add: requireAdminAllowQuery_def)

text \<open>
  C10.  Where the Authorization header is \<^verbatim>\<open>Bearer \<close> followed by a token, the lenient
  guard decides on that token alone, whatever the \<open>token\<close> query parameter holds: with
  a header token that \<open>verifyAdmin\<close> refuses the answer is 401, also when the query
  parameter holds a token it would accept.
\<close>

theorem header_token_shadows_query:
  "t \<noteq> [] \<and> \<not> list_ex line_terminator t \<longrightarrow>
   requireAdminAllowQuery e jwt_verify \<lparr>authorization = Some (''Bearer '' @ t), query_token = qt\<rparr>
     = (case verifyAdmin e jwt_verify t of
          None \<Rightarrow> Rejected 401 ''Unauthorized''
        | Some payload \<Rightarrow> Next payload)"
proof (intro impI, elim conjE)
  assume t: "t \<noteq> []" "\<not> list_ex line_terminator t"
  let ?req = "\<lparr>authorization = Some (''Bearer '' @ t), query_token = qt\<rparr>"
  have eb: "extractBearer ?req = t"
    using t by (rule extractBearer_header)
  show "requireAdminAllowQuery e jwt_verify ?req
     = (case verifyAdmin e jwt_verify t of
          None \<Rightarrow> Rejected 401 ''Unauthorized''
        | Some payload \<Rightarrow> Next payload)"
    using lenient_header_first [of ?req e jwt_verify] eb t(1)
    unfolding unauthorized_def by simp
qed

theorem header_token_shadows_query_witness:
  "''bad'' \<noteq> [] \<and> \<not> list_ex line_terminator ''bad'' \<and>
   verifyAdmin example_env example_verify ''bad'' = None \<and>
   verifyAdmin example_env example_verify ''good'' \<noteq> None \<and>
   requireAdminAllowQuery example_env example_verify
     \<lparr>authorization = Some ''Bearer bad'', query_token = Some (JStr ''good'')\<rparr>
     = Rejected 401 ''Unauthorized''"
proof -
  have a: "''bad'' \<noteq> [] \<and> \<not> list_ex line_terminator ''bad''"
    by (simp add: line_terminator_def)
  have b: "verifyAdmin example_env example_verify ''bad'' = None"
    by (simp add: verifyAdmin_def example_verify_def)
  show ?thesis
    using a b example_verify_good
      header_token_shadows_query [of "''bad''" example_env example_verify "Some (JStr ''good'')"]
    by simp
qed

section \<open>Properties of the status update\<close>

lemma set_allowed:
  "set allowed = {''pending'', ''reviewing'', ''quoted'', ''scheduled'', ''closed'', ''cancelled''}"
  by (simp add: allowed_def)

lemma body_status_string: "body_status (Some (JStr s)) = Some s"
  by (simp add: body_status_def ToString_def)


lemma q_id_set_status: "q_id (set_status st now r) = q_id r"
  by (simp add: set_status_def)

lemma filter_update_same:
  "filter (\<lambda>r. q_id r = i) (map (\<lambda>r. if q_id r = i then set_status st now r else r) rs)
     = map (set_status st now) (filter (\<lambda>r. q_id r = i) rs)"
  by (induction rs) (simp_all add: q_id_set_status)

lemma filter_update_other:
  "j \<noteq> i \<Longrightarrow>
   filter (\<lambda>r. q_id r = j) (map (\<lambda>r. if q_id r = i then set_status st now r else r) rs)
     = filter (\<lambda>r. q_id r = j) rs"
  by (induction rs) (simp_all add: q_id_set_status)

lemma update_none:
  "filter (\<lambda>r. q_id r = i) rs = [] \<Longrightarrow>
   map (\<lambda>r. if q_id r = i then set_status st now r else r) rs = rs"
  by (induction rs) (simp_all split: if_splits)





lemma status_handler_found:
  assumes "body_status v = Some s" "s \<in> set allowed" "int4 i" "select_quote d i \<noteq> []"
  shows "fst (status_handler to_date d now i v) = Success (i, s, to_date now)"
    and "snd (status_handler to_date d now i v) =
           d\<lparr>quotes := map (\<lambda>r. if q_id r = i then set_status s now r else r) (quotes d)\<rparr>"
proof -
  obtain r rs where f: "filter (\<lambda>r. q_id r = i) (quotes d) = r # rs"
    using assms(4) by (auto simp: select_quote_def neq_Nil_conv)
  then have "r \<in> set (filter (\<lambda>r. q_id r = i) (quotes d))" by simp
  then have ri: "q_id r = i" by simp
  show "fst (status_handler to_date d now i v) = Success (i, s, to_date now)"
    using assms(1-3) f ri by (simp add: status_handler_def update_status_def set_status_def)
  show "snd (status_handler to_date d now i v) =
           d\<lparr>quotes := map (\<lambda>r. if q_id r = i then set_status s now r else r) (quotes d)\<rparr>"
    using assms(1-3) f by (simp add: status_handler_def update_status_def)
qed

lemma status_handler_missing:
  assumes "body_status v = Some s" "s \<in> set allowed" "int4 i" "select_quote d i = []"
  shows "status_handler to_date d now i v = (Failure 404 ''Not found'', d)"
  using assms update_none [of i "quotes d" s now]
  by (simp add: status_handler_def update_status_def select_quote_def)

lemma status_handler_refused:
  assumes "body_status v = Some s" "s \<in> set allowed" "\<not> int4 i"
  shows "status_handler to_date d now i v = (Failure 500 ''Server error'', d)"
  using assms by (simp add: status_handler_def update_status_def)

text \<open>
  C2, as amended.  Take a status sent whose target status string is one of the six
  values.  Where the id lies in the 32-bit range of the column and a request of the id
  exists, the answer carries the id, that status and the date the driver makes of the
  store's clock reading \<open>now\<close>; afterwards the request has exactly that status,
  whatever it was before, and \<open>now\<close> as its update time, which is later than before
  whenever the clock reads later than the previous update time; requests of other ids
  are as before.  Where the id lies in the range and no request has it, the answer is
  404 \<^verbatim>\<open>Not found\<close> and the store is as it was.  Where the id lies outside the range,
  the store refuses it: the answer is 500 and the store is as it was.
\<close>

theorem legal_status_applied:
  "body_status v = Some s \<and>
   s \<in> {''pending'', ''reviewing'', ''quoted'', ''scheduled'', ''closed'', ''cancelled''}
   \<longrightarrow>
   (int4 i \<and> select_quote d i \<noteq> [] \<longrightarrow>
      fst (status_handler to_date d now i v) = Success (i, s, to_date now) \<and>
      select_quote (snd (status_handler to_date d now i v)) i
        = map (set_status s now) (select_quote d i) \<and>
      (\<forall>r \<in> set (select_quote (snd (status_handler to_date d now i v)) i).
         q_status r = s \<and> q_updated_at r = now) \<and>
      (\<forall>r \<in> set (select_quote d i).
         \<forall>r' \<in> set (select_quote (snd (status_handler to_date d now i v)) i).
           q_updated_at r < now \<longrightarrow> q_updated_at r < q_updated_at r') \<and>
      (\<forall>j. j \<noteq> i \<longrightarrow>
         select_quote (snd (status_handler to_date d now i v)) j = select_quote d j)) \<and>
   (int4 i \<and> select_quote d i = [] \<longrightarrow>
      status_handler to_date d now i v = (Failure 404 ''Not found'', d)) \<and>
   (\<not> int4 i \<longrightarrow> status_handler to_date d now i v = (Failure 500 ''Server error'', d))"
proof (intro impI conjI; (elim conjE)?)
  assume bs: "body_status v = Some s"
    and "s \<in> {''pending'', ''reviewing'', ''quoted'', ''scheduled'', ''closed'', ''cancelled''}"
  then have legal: "s \<in> set allowed" unfolding set_allowed by simp
  { assume "int4 i" "select_quote d i = []"
    then show "status_handler to_date d now i v = (Failure 404 ''Not found'', d)"
      using bs legal status_handler_missing by blast }
  { assume "\<not> int4 i"
    then show "status_handler to_date d now i v = (Failure 500 ''Server error'', d)"
      using bs legal status_handler_refused by blast }
  assume rng: "int4 i" and ex: "select_quote d i \<noteq> []"
  note sh = status_handler_found [OF bs legal rng ex, of to_date now]
  show "fst (status_handler to_date d now i v) = Success (i, s, to_date now)" by (rule sh(1))
  show sel: "select_quote (snd (status_handler to_date d now i v)) i
        = map (set_status s now) (select_quote d i)"
    by (simp add: sh(2) select_quote_def filter_update_same)
  show all: "\<forall>r \<in> set (select_quote (snd (status_handler to_date d now i v)) i).
         q_status r = s \<and> q_updated_at r = now"
    by (auto simp: sel set_status_def)
  show "\<forall>r \<in> set (select_quote d i).
         \<forall>r' \<in> set (select_quote (snd (status_handler to_date d now i v)) i).
           q_updated_at r < now \<longrightarrow> q_updated_at r < q_updated_at r'"
    using all by simp
  show "\<forall>j. j \<noteq> i \<longrightarrow>
         select_quote (snd (status_handler to_date d now i v)) j = select_quote d j"
    by (simp add: sh(2) select_quote_def filter_update_other)
qed

lemma example_select: "select_quote example_db 1 = [example_row]"
  by (simp add: select_quote_def example_db_def example_row_def)

theorem legal_status_applied_witness:
  "body_status (Some (JStr ''closed'')) = Some ''closed'' \<and>
   ''closed'' \<in> {''pending'', ''reviewing'', ''quoted'', ''scheduled'', ''closed'', ''cancelled''} \<and>
   int4 1 \<and> select_quote example_db 1 \<noteq> [] \<and>
   fst (status_handler to_millis example_db 9000 1 (Some (JStr ''closed'')))
     = Success (1, ''closed'', 9) \<and>
   select_quote (snd (status_handler to_millis example_db 9000 1 (Some (JStr ''closed'')))) 1
     = [example_row\<lparr>q_status := ''closed'', q_updated_at := 9000\<rparr>] \<and>
   int4 7 \<and> select_quote example_db 7 = [] \<and>
   status_handler to_millis example_db 9000 7 (Some (JStr ''closed''))
     = (Failure 404 ''Not found'', example_db) \<and>
   \<not> int4 2147483648 \<and>
   status_handler to_millis example_db 9000 2147483648 (Some (JStr ''closed''))
     = (Failure 500 ''Server error'', example_db)"
proof -
  have a: "body_status (Some (JStr ''closed'')) = Some ''closed''" by (rule body_status_string)
  have b: "select_quote example_db 7 = []"
    by (simp add: select_quote_def example_db_def example_row_def)
  have c: "int4 1" "int4 7" "\<not> int4 2147483648" by (simp_all add: int4_def)
  have m: "to_millis 9000 = 9" by (simp add: to_millis_def)
  show ?thesis
    using a b c m example_select
      legal_status_applied [of "Some (JStr ''closed'')" "''closed''" 1 example_db to_millis 9000]
      legal_status_applied [of "Some (JStr ''closed'')" "''closed''" 7 example_db to_millis 9000]
      legal_status_applied [of "Some (JStr ''closed'')" "''closed''" 2147483648 example_db to_millis 9000]
    by (simp add: set_status_def)
qed

text \<open>
  C2 as stated fails.  An update at a clock reading equal to the request's update time
  leaves the update time where it was.  And an update by the id \<open>2^31\<close>, which no
  request has, is not answered with 404 but with 500.
\<close>

theorem update_timestamp_not_increased:
  "body_status (Some (JStr ''closed'')) = Some ''closed'' \<and> ''closed'' \<in> set allowed \<and>
   select_quote example_db 1 = [example_row] \<and>
   \<not> q_updated_at example_row
       < q_updated_at
           (hd (select_quote
                  (snd (status_handler to_millis example_db 5 1 (Some (JStr ''closed'')))) 1)) \<and>
   select_quote example_db 2147483648 = [] \<and>
   status_handler to_millis example_db 5 2147483648 (Some (JStr ''closed''))
     = (Failure 500 ''Server error'', example_db)"
  by (simp add: body_status_string allowed_def example_select status_handler_def update_status_def
      int4_def select_quote_def example_db_def set_status_def example_row_def)

section \<open>Properties of the submission\<close>

lemma quotes_insert_file: "quotes (insert_file d now quoteId f) = quotes d"
  by (simp add: insert_file_def)

lemma quotes_insert_files: "quotes (insert_files d now quoteId fs) = quotes d"
  by (induction fs arbitrary: d) (simp_all add: quotes_insert_file)

lemma filter_fresh:
  "\<forall>r \<in> set rs. q_id r < n \<Longrightarrow> filter (\<lambda>r. q_id r = n) rs = []"
  by (induction rs) auto

lemma hasUrgencyColumn_sound:
  "HAS_URGENCY = None \<or> HAS_URGENCY = Some (urgency_column d) \<Longrightarrow>
   hasUrgencyColumn HAS_URGENCY d = (urgency_column d, Some (urgency_column d))"
  by (auto simp: hasUrgencyColumn_def)

text \<open>
  C3.  A submission that passes the payload check and the upload limits, sent when the
  cached answer about the urgency column is unset or agrees with the table and every
  stored request has an id below the next value of the sequence, is answered with that
  next value as its id; afterwards exactly one request has this id, it is the one the
  detail handler answers with for the id, its status is \<^verbatim>\<open>pending\<close>, and its
  creation and update times are both the clock reading of the insert.
\<close>

theorem submission_is_pending:
  assumes valid: "QuoteSchema_parse is_email body \<noteq> None"
    and limits: "upload_array ''files'' parts = Inr fs"
    and cache: "HAS_URGENCY = None \<or> HAS_URGENCY = Some (urgency_column d)"
    and ids: "\<forall>r \<in> set (quotes d). q_id r < quotes_id_seq d"
  shows "\<exists>cache' d' r.
           submit_route is_email now body parts (HAS_URGENCY, d)
             = (Success (quotes_id_seq d), cache', d') \<and>
           select_quote d' (quotes_id_seq d) = [r] \<and>
           (\<exists>fds. detail_handler d' (quotes_id_seq d) = Success (r, fds)) \<and>
           q_status r = ''pending'' \<and> q_created_at r = now \<and> q_updated_at r = now"
proof -
  from valid obtain dat where dat: "QuoteSchema_parse is_email body = Some dat" by auto
  let ?u = "urgency_column d"
  let ?c = "d_consent dat = Some ''true''"
  have "insert_quote d now ?u dat ?c \<noteq> None"
    by (simp add: insert_quote_def Let_def)
  then obtain created d1 where
    ins: "insert_quote d now ?u dat ?c = Some ((quotes_id_seq d, created), d1)"
    by (auto simp: insert_quote_def Let_def)
  then obtain r where
    q1: "quotes d1 = quotes d @ [r]" and r: "q_id r = quotes_id_seq d"
      "q_status r = ''pending''" "q_created_at r = now" "q_updated_at r = now"
    by (auto simp: insert_quote_def Let_def)
  have route: "submit_route is_email now body parts (HAS_URGENCY, d)
      = (Success (quotes_id_seq d), Some ?u, insert_files d1 now (quotes_id_seq d) fs)"
    using limits dat ins hasUrgencyColumn_sound [OF cache]
    by (simp add: submit_route_def submit_handler_def Let_def)
  have sel: "select_quote (insert_files d1 now (quotes_id_seq d) fs) (quotes_id_seq d) = [r]"
    using filter_fresh [OF ids] by (simp add: select_quote_def quotes_insert_files q1 r(1))
  then have "\<exists>fds. detail_handler (insert_files d1 now (quotes_id_seq d) fs) (quotes_id_seq d)
      = Success (r, fds)"
    by (simp add: detail_handler_def)
  with route r sel show ?thesis by blast
qed


lemma example_body_valid: "QuoteSchema_parse example_is_email example_body \<noteq> None"
  by (simp add: QuoteSchema_parse_def example_body_def example_is_email_def)

lemma example_db_seq: "quotes_id_seq example_db = 2"
  by (simp add: example_db_def)

theorem submission_is_pending_witness:
  "QuoteSchema_parse example_is_email example_body \<noteq> None \<and>
   upload_array ''files'' [example_file] = Inr [example_file] \<and>
   map q_id (quotes example_db) = [1] \<and> quotes_id_seq example_db = 2 \<and>
   fst (submit_route example_is_email 9 example_body [example_file] (None, example_db))
     = Success 2 \<and>
   map (\<lambda>r. (q_status r, q_created_at r, q_updated_at r))
     (select_quote
        (snd (snd (submit_route example_is_email 9 example_body [example_file] (None, example_db))))
        2)
     = [(''pending'', 9, 9)]"
proof -
  have l: "upload_array ''files'' [example_file] = Inr [example_file]"
    by (simp add: upload_array_def example_file_def files_limit_def fileSize_limit_def)
  have c: "None = None \<or> None = Some (urgency_column example_db)" by simp
  have i: "\<forall>r \<in> set (quotes example_db). q_id r < quotes_id_seq example_db"
    by (simp add: example_db_def example_row_def)
  have m: "map q_id (quotes example_db) = [1]"
    by (simp add: example_db_def example_row_def)
  from submission_is_pending [OF example_body_valid l c i, of 9]
  show ?thesis using example_body_valid l m by (auto simp: example_db_seq)
qed

lemma upload_array_exceeded:
  "(\<exists>f \<in> set parts. fileSize_limit < size f) \<or> files_limit < length parts \<Longrightarrow>
   \<exists>err. upload_array field parts = Inl err"
  by (auto simp: upload_array_def list_ex_iff)

text \<open>
  C4, as amended.  A submission with a file part of more than 10 MiB, or with more than
  10 file parts, is answered by the global error guard with 500 and the message
  \<^verbatim>\<open>Server error\<close>; the store and the cache are as before, so no request is created.
\<close>

theorem oversized_upload_rejected:
  "(\<exists>f \<in> set parts. 10 * 1024 * 1024 < size f) \<or> 10 < length parts \<Longrightarrow>
   submit_route is_email now body parts st = (Failure 500 ''Server error'', st)"
proof -
  assume "(\<exists>f \<in> set parts. 10 * 1024 * 1024 < size f) \<or> 10 < length parts"
  then have "(\<exists>f \<in> set parts. fileSize_limit < size f) \<or> files_limit < length parts"
    by (simp add: fileSize_limit_def files_limit_def)
  then obtain err where "upload_array ''files'' parts = Inl err"
    using upload_array_exceeded by blast
  then show ?thesis by (simp add: submit_route_def error_guard_def)
qed

theorem oversized_upload_rejected_witness:
  "10 * 1024 * 1024 < size big_file \<and>
   submit_route example_is_email 9 example_body [big_file] (None, example_db)
     = (Failure 500 ''Server error'', None, example_db)"
proof -
  have b: "10 * 1024 * 1024 < size big_file" by (simp add: big_file_def)
  then have "(\<exists>f \<in> set [big_file]. 10 * 1024 * 1024 < size f) \<or> 10 < length [big_file]"
    by simp
  from oversized_upload_rejected [OF this] b show ?thesis by simp
qed

text \<open>
  C4 as stated fails: the answer to a submission with a single file of 15 MiB has no
  4xx status.
\<close>

theorem oversized_upload_not_client_error:
  "size big_file = 15 * 1024 * 1024 \<and>
   \<not> client_error
       (fst (submit_route example_is_email 9 example_body [big_file] (None, example_db)))"
  by (simp add: big_file_def submit_route_def upload_array_def files_limit_def fileSize_limit_def
      error_guard_def client_error_def)


text \<open>The two conditions on the state are kept by the handlers that write.\<close>

lemma insert_files_keeps:
  "quotes_id_seq (insert_files d now quoteId fs) = quotes_id_seq d"
  "urgency_column (insert_files d now quoteId fs) = urgency_column d"
  by (induction fs arbitrary: d) (simp_all add: insert_file_def)

lemma insert_quote_keeps_ids:
  assumes "\<forall>r \<in> set (quotes d). q_id r < quotes_id_seq d"
    and "insert_quote d now u dat c = Some (res, d1)"
  shows "\<forall>r \<in> set (quotes d1). q_id r < quotes_id_seq d1"
proof -
  from assms(2) obtain row where
    "quotes d1 = quotes d @ [row]" "q_id row = quotes_id_seq d"
    "quotes_id_seq d1 = quotes_id_seq d + 1"
    by (auto simp: insert_quote_def Let_def split: if_splits)
  then show ?thesis using assms(1) by fastforce
qed

lemma submit_route_keeps_ids:
  assumes "\<forall>r \<in> set (quotes d). q_id r < quotes_id_seq d"
    and "submit_route is_email now body parts (HAS_URGENCY, d) = (reply, cache', d')"
  shows "\<forall>r \<in> set (quotes d'). q_id r < quotes_id_seq d'"
proof (cases "upload_array ''files'' parts")
  case (Inl err)
  then show ?thesis using assms by (simp add: submit_route_def)
next
  case (Inr fs)
  show ?thesis
  proof (cases "QuoteSchema_parse is_email body")
    case None
    then show ?thesis using assms Inr by (simp add: submit_route_def submit_handler_def)
  next
    case (Some dat)
    obtain has c where h: "hasUrgencyColumn HAS_URGENCY d = (has, c)"
      by (cases "hasUrgencyColumn HAS_URGENCY d") auto
    show ?thesis
    proof (cases "insert_quote d now has dat (d_consent dat = Some ''true'')")
      case None
      then show ?thesis using assms Inr Some h
        by (simp add: submit_route_def submit_handler_def)
    next
      case (Some a)
      obtain res d1 where a: "a = (res, d1)" by (cases a) auto
      obtain quoteId created where res: "res = (quoteId, created)" by (cases res) auto
      have "d' = insert_files d1 now quoteId fs"
        using assms(2) Inr \<open>QuoteSchema_parse is_email body = Some dat\<close> h Some a res
        by (simp add: submit_route_def submit_handler_def)
      then show ?thesis
        using insert_quote_keeps_ids [OF assms(1)] Some a
        by (simp add: quotes_insert_files insert_files_keeps)
    qed
  qed
qed

lemma submit_route_keeps_cache:
  assumes "HAS_URGENCY = None \<or> HAS_URGENCY = Some (urgency_column d)"
    and "submit_route is_email now body parts (HAS_URGENCY, d) = (reply, cache', d')"
  shows "cache' = None \<or> cache' = Some (urgency_column d')"
  using assms
  by (auto simp: submit_route_def submit_handler_def error_guard_def insert_quote_def Let_def
      hasUrgencyColumn_def insert_files_keeps
      split: sum.splits option.splits prod.splits if_splits)

lemma status_handler_keeps_ids:
  assumes "\<forall>r \<in> set (quotes d). q_id r < quotes_id_seq d"
  shows "\<forall>r \<in> set (quotes (snd (status_handler to_date d now i v))).
           q_id r < quotes_id_seq (snd (status_handler to_date d now i v))"
  using assms
  by (auto simp: status_handler_def update_status_def set_status_def
      split: list.splits option.splits if_splits)

section \<open>Properties of the file download\<close>

lemma select_file_None: "(select_file d i = None) = (\<not> int4 i)"
  by (simp add: select_file_def)

text \<open>
  C6, as amended.  The store refuses exactly the ids outside the 32-bit range of the
  column.  Where it returns no attachment for the id, the answer is 404 with the message
  \<^verbatim>\<open>Not found\<close>; where the first attachment it returns names a file that is not on
  disk, the answer is 404 with the message \<^verbatim>\<open>Missing file\<close>; where it refuses the id,
  the answer is 500 with the message \<^verbatim>\<open>Server error\<close>.
\<close>

theorem file_not_found_replies:
  "(select_file d i = None) = (\<not> int4 i) \<and>
   (select_file d i = Some [] \<longrightarrow>
      file_handler e mime_lookup encode disk d i = Failure 404 ''Not found'') \<and>
   (select_file d i = Some (f # rows) \<and> UPLOAD_DIR e @ ''/'' @ f_path f \<notin> disk \<longrightarrow>
      file_handler e mime_lookup encode disk d i = Failure 404 ''Missing file'') \<and>
   (select_file d i = None \<longrightarrow>
      file_handler e mime_lookup encode disk d i = Failure 500 ''Server error'')"
proof (intro conjI impI)
  show "(select_file d i = None) = (\<not> int4 i)" by (rule select_file_None)
next
  assume "select_file d i = Some []"
  then show "file_handler e mime_lookup encode disk d i = Failure 404 ''Not found''"
    by (simp add: file_handler_def)
next
  assume "select_file d i = Some (f # rows) \<and> UPLOAD_DIR e @ ''/'' @ f_path f \<notin> disk"
  then show "file_handler e mime_lookup encode disk d i = Failure 404 ''Missing file''"
    by (simp add: file_handler_def)
next
  assume "select_file d i = None"
  then show "file_handler e mime_lookup encode disk d i = Failure 500 ''Server error''"
    by (simp add: file_handler_def)
qed

lemma example_select_file:
  "select_file example_db 1 = Some []"
  "select_file example_db_file 1 = Some [example_file_row]"
  "select_file example_db_file 2147483648 = None"
  by (simp_all add: select_file_def int4_def example_db_def example_db_file_def
      example_file_row_def)

lemma example_full_path:
  "UPLOAD_DIR Map.empty @ ''/'' @ f_path example_file_row = ''/data/uploads/0b5e.png''"
  by (simp add: UPLOAD_DIR_def example_file_row_def)

theorem file_not_found_replies_witness:
  "select_file example_db 1 = Some [] \<and>
   file_handler Map.empty Map.empty id {} example_db 1 = Failure 404 ''Not found'' \<and>
   select_file example_db_file 1 = Some [example_file_row] \<and>
   UPLOAD_DIR Map.empty @ ''/'' @ f_path example_file_row \<notin> {} \<and>
   file_handler Map.empty Map.empty id {} example_db_file 1 = Failure 404 ''Missing file'' \<and>
   select_file example_db_file 2147483648 = None \<and> \<not> int4 2147483648 \<and>
   file_handler Map.empty Map.empty id {} example_db_file 2147483648
     = Failure 500 ''Server error''"
  using example_select_file
    file_not_found_replies [where d = example_db and i = 1 and e = Map.empty
      and mime_lookup = Map.empty and encode = id and disk = "{}"]
    file_not_found_replies [where d = example_db_file and i = 1 and e = Map.empty
      and mime_lookup = Map.empty and encode = id and disk = "{}" and f = example_file_row
      and rows = "[]"]
    file_not_found_replies [where d = example_db_file and i = 2147483648 and e = Map.empty
      and mime_lookup = Map.empty and encode = id and disk = "{}"]
  by simp

text \<open>
  C6 as stated fails.  The answers in the two cases are not the same, so the caller can
  tell the causes apart.  And for the id \<open>2^31\<close>, which no attachment has, the answer
  is not 404 but 500.
\<close>

theorem file_not_found_messages_differ:
  "select_file example_db 1 = Some [] \<and>
   select_file example_db_file 1 = Some [example_file_row] \<and>
   ''/data/uploads/0b5e.png'' \<notin> ({} :: string set) \<and>
   file_handler Map.empty Map.empty id {} example_db 1
     \<noteq> file_handler Map.empty Map.empty id {} example_db_file 1 \<and>
   filter (\<lambda>f. f_id f = 2147483648) (files example_db_file) = [] \<and>
   file_handler Map.empty Map.empty id {} example_db_file 2147483648
     = Failure 500 ''Server error''"
proof -
  have "filter (\<lambda>f. f_id f = 2147483648) (files example_db_file) = []"
    by (simp add: example_db_file_def example_file_row_def)
  then show ?thesis
    by (simp add: example_select_file file_handler_def example_full_path)
qed

section \<open>Properties of the listing\<close>

lemma parseInt_undefined: "parseInt ''undefined'' = None"
  by (simp add: parseInt_def white_space_def digit_def)

lemma list_limit_cases:
  "ToString (query_limit qu) = Some t \<Longrightarrow>
   list_limit qu =
     Some (case parseInt t of None \<Rightarrow> 20 | Some n \<Rightarrow> if n = 0 then 20 else max 1 (min 200 n))"
  by (simp add: list_limit_def or_default_def split: option.split)

lemma list_offset_cases:
  "ToString (query_offset qu) = Some t \<Longrightarrow>
   list_offset qu = Some (case parseInt t of None \<Rightarrow> 0 | Some n \<Rightarrow> max 0 n)"
  by (simp add: list_offset_def or_default_def split: option.split)

text \<open>
  What holds of paging.  The limit in force lies between 1 and 200 and is 20 where the
  parameter is absent; the offset in force is at least 0 and is 0 where the parameter is
  absent or reads as a negative number.
\<close>

lemma paging_bounds:
  "(list_limit qu = Some l \<longrightarrow> 1 \<le> l \<and> l \<le> 200) \<and>
   (list_offset qu = Some m \<longrightarrow> 0 \<le> m) \<and>
   (query_limit qu = None \<longrightarrow> list_limit qu = Some 20) \<and>
   (query_offset qu = None \<longrightarrow> list_offset qu = Some 0) \<and>
   (ToString (query_offset qu) = Some t \<and> parseInt t = Some n \<and> n < 0
      \<longrightarrow> list_offset qu = Some 0)"
  by (auto simp: list_limit_def list_offset_def ToString_def parseInt_undefined or_default_def)

text \<open>
  C5, at an input where the code departs from it.  The limits \<^verbatim>\<open>-1\<close> and \<^verbatim>\<open>1\<close> put
  the limit 1 in force, and the limit \<^verbatim>\<open>0\<close> the limit 20: over a store of two
  requests, \<^verbatim>\<open>limit=0\<close> is answered with both and \<^verbatim>\<open>limit=1\<close> with one.
\<close>

theorem limit_zero_is_not_limit_one:
  "list_limit (paging ''-1'' ''0'') = Some 1 \<and>
   list_limit (paging ''0'' ''0'') = Some 20 \<and> list_limit (paging ''1'' ''0'') = Some 1 \<and>
   list_handler two_quotes (paging ''0'' ''0'') = Success [summary_of second_row, summary_of example_row] \<and>
   list_handler two_quotes (paging ''1'' ''0'') = Success [summary_of second_row] \<and>
   list_handler two_quotes (paging ''0'' ''0'') \<noteq> list_handler two_quotes (paging ''1'' ''0'')"
  by (simp add: list_handler_def select_quotes_def list_limit_def list_offset_def list_status_def
      list_q_def or_default_def ToString_def paging_def parseInt_def white_space_def digit_def
      digits_value_def trim_def toLowerCase_def where_clause_def two_quotes_def example_db_def
      example_row_def second_row_def offset_refused_def)

text \<open>No pattern the list handler builds ends in a lone backslash.\<close>

lemma lone_backslash_percent: "\<not> lone_backslash (p @ ''%'')"
  by (induction p rule: lone_backslash.induct) simp_all

lemma list_pattern_well_formed: "\<not> lone_backslash (''%'' @ q @ ''%'')"
proof -
  obtain x xs where "q @ ''%'' = x # xs" by (cases "q @ ''%''") auto
  then show ?thesis using lone_backslash_percent [of q] by simp
qed

lemma like_percent_all: "like_match ''%'' s"
  by (induction s) simp_all

lemma like_literal_prefix:
  "\<not> list_ex meta_char q \<Longrightarrow>
   like_match (q @ p) s = (\<exists>t. s = q @ t \<and> like_match p t)"
proof (induction q arbitrary: s)
  case Nil
  then show ?case by simp
next
  case (Cons a q)
  from Cons.prems have a: "a \<noteq> CHR ''%''" "a \<noteq> CHR ''_''" "a \<noteq> CHR 0x5C"
    by (simp_all add: meta_char_def)
  from Cons.prems have q: "\<not> list_ex meta_char q"
    by simp
  show ?case
  proof (cases s)
    case Nil
    then show ?thesis using a by simp
  next
    case (Cons c cs)
    then show ?thesis using a Cons.IH [OF q, of cs] by auto
  qed
qed

lemma like_percent_skip:
  "like_match (CHR ''%'' # p) s = (\<exists>u t. s = u @ t \<and> like_match p t)"
proof (induction s)
  case Nil
  then show ?case by (cases p) auto
next
  case (Cons c cs)
  show ?case
  proof
    assume "like_match (CHR ''%'' # p) (c # cs)"
    then consider "like_match p (c # cs)" | "like_match (CHR ''%'' # p) cs" by auto
    then show "\<exists>u t. c # cs = u @ t \<and> like_match p t"
    proof cases
      case 1
      then have "c # cs = [] @ (c # cs) \<and> like_match p (c # cs)" by simp
      then show ?thesis by blast
    next
      case 2
      then obtain u t where "cs = u @ t" "like_match p t" using Cons.IH by auto
      then have "c # cs = (c # u) @ t \<and> like_match p t" by simp
      then show ?thesis by blast
    qed
  next
    assume "\<exists>u t. c # cs = u @ t \<and> like_match p t"
    then obtain u t where ut: "c # cs = u @ t" "like_match p t" by auto
    show "like_match (CHR ''%'' # p) (c # cs)"
    proof (cases u)
      case Nil
      then have "t = c # cs" using ut(1) by simp
      then show ?thesis using ut(2) by simp
    next
      case (Cons c' u')
      then have "cs = u' @ t" using ut by simp
      then have "like_match (CHR ''%'' # p) cs" using ut(2) Cons.IH by auto
      then show ?thesis by simp
    qed
  qed
qed

lemma like_contains:
  assumes "\<not> list_ex meta_char q"
  shows "like_match (CHR ''%'' # q @ ''%'') s = sublist q s"
proof -
  have "like_match (CHR ''%'' # q @ ''%'') s = (\<exists>u t. s = u @ t \<and> like_match (q @ ''%'') t)"
    by (rule like_percent_skip)
  also have "\<dots> = (\<exists>u t. s = u @ t \<and> (\<exists>t'. t = q @ t' \<and> like_match ''%'' t'))"
    by (simp only: like_literal_prefix [OF assms])
  also have "\<dots> = (\<exists>u t'. s = u @ q @ t')"
    by (auto simp: like_percent_all)
  also have "\<dots> = sublist q s"
    by (simp add: sublist_def)
  finally show ?thesis .
qed


lemma select_quotes_subset:
  "set (select_quotes d status q limit offset) \<subseteq> {r \<in> set (quotes d). where_clause status q r}"
proof -
  have "set (select_quotes d status q limit offset)
      \<subseteq> set (sort_key (\<lambda>r. - q_created_at r) (filter (where_clause status q) (quotes d)))"
    unfolding select_quotes_def
    by (meson set_take_subset set_drop_subset subset_trans)
  then show ?thesis by auto
qed

lemma list_handler_cong:
  "list_status qu = list_status qu' \<Longrightarrow> list_q qu = list_q qu' \<Longrightarrow>
   list_limit qu = list_limit qu' \<Longrightarrow> list_offset qu = list_offset qu' \<Longrightarrow>
   list_handler d qu = list_handler d qu'"
  by (simp add: list_handler_def split: option.split)

lemma list_status_illegal:
  "s \<notin> {''pending'', ''reviewing'', ''quoted'', ''scheduled'', ''closed'', ''cancelled''} \<Longrightarrow>
   list_handler d (qu\<lparr>query_status := Some (JStr s)\<rparr>) = list_handler d (qu\<lparr>query_status := None\<rparr>)"
  by (intro list_handler_cong)
     (simp_all add: list_status_def allowedStatuses_def list_q_def list_limit_def list_offset_def)

lemma list_handler_Success:
  assumes "list_handler d qu = Success rows"
  obtains q limit offset where
    "list_q qu = Some q" "list_limit qu = Some limit" "list_offset qu = Some offset"
    "rows = map summary_of (select_quotes d (list_status qu) q limit offset)"
  using assms
  by (auto simp: list_handler_def split: option.splits if_splits)

text \<open>
  What holds of the filters.  A status filter outside the six values is answered as no
  status filter.  Under a status filter among the six, every request listed has that
  status.  Every request listed is one of the store, and where the text query, trimmed
  and in lower case, is not empty and has none of the characters \<^verbatim>\<open>%\<close>, \<^verbatim>\<open>_\<close> and
  backslash, it is a contiguous part of the request's name, e-mail or notes in lower
  case.
\<close>

theorem list_filters:
  assumes "list_handler d qu = Success rows"
  shows "(s \<notin> {''pending'', ''reviewing'', ''quoted'', ''scheduled'', ''closed'', ''cancelled''} \<longrightarrow>
          list_handler d (qu\<lparr>query_status := Some (JStr s)\<rparr>)
            = list_handler d (qu\<lparr>query_status := None\<rparr>)) \<and>
         (list_status qu = Some s \<longrightarrow> (\<forall>x \<in> set rows. s_status x = s)) \<and>
         (\<exists>q rs. list_q qu = Some q \<and> rows = map summary_of rs \<and>
            (\<forall>r \<in> set rs. r \<in> set (quotes d) \<and>
               (q \<noteq> [] \<and> \<not> list_ex meta_char q \<longrightarrow>
                  sublist q (toLowerCase (q_name r)) \<or>
                  sublist q (toLowerCase (q_email r)) \<or>
                  sublist q (toLowerCase (coalesce (q_notes r) [])))))"
proof -
  from assms obtain q limit offset where
    q: "list_q qu = Some q" and
    rows: "rows = map summary_of (select_quotes d (list_status qu) q limit offset)"
    by (rule list_handler_Success)
  let ?rs = "select_quotes d (list_status qu) q limit offset"
  have sub: "\<And>r. r \<in> set ?rs \<Longrightarrow> r \<in> set (quotes d) \<and> where_clause (list_status qu) q r"
    using select_quotes_subset [of d "list_status qu" q limit offset]
    by auto
  have st: "list_status qu = Some s \<longrightarrow> (\<forall>x \<in> set rows. s_status x = s)"
    using sub by (auto simp: rows summary_of_def where_clause_def)
  have tx: "\<forall>r \<in> set ?rs. r \<in> set (quotes d) \<and>
               (q \<noteq> [] \<and> \<not> list_ex meta_char q \<longrightarrow>
                  sublist q (toLowerCase (q_name r)) \<or>
                  sublist q (toLowerCase (q_email r)) \<or>
                  sublist q (toLowerCase (coalesce (q_notes r) [])))"
  proof (intro ballI conjI impI)
    fix r assume r: "r \<in> set ?rs"
    show "r \<in> set (quotes d)" using sub [OF r] by simp
    assume ne: "q \<noteq> [] \<and> \<not> list_ex meta_char q"
    then have plain: "\<not> list_ex meta_char q" by simp
    have "where_clause (list_status qu) q r" using sub [OF r] by simp
    then show "sublist q (toLowerCase (q_name r)) \<or>
               sublist q (toLowerCase (q_email r)) \<or>
               sublist q (toLowerCase (coalesce (q_notes r) []))"
      using ne by (simp add: where_clause_def Let_def like_contains [OF plain])
  qed
  show ?thesis
    using list_status_illegal [of s d qu] st rows tx q by blast
qed

text \<open>
  C9, at an input where the code departs from it.  The query \<^verbatim>\<open>jane_doe\<close> is no part of
  the name, the e-mail or the notes of the one request in the store, and the request is
  listed all the same: the underscore of the query stands for any character in the
  pattern the handler builds.
\<close>

theorem underscore_matches_any_character:
  "list_q underscore_query = Some ''jane_doe'' \<and>
   \<not> sublist ''jane_doe'' (toLowerCase (q_name example_row)) \<and>
   \<not> sublist ''jane_doe'' (toLowerCase (q_email example_row)) \<and>
   \<not> sublist ''jane_doe'' (toLowerCase (coalesce (q_notes example_row) [])) \<and>
   list_handler example_db underscore_query = Success [summary_of example_row]"
  by code_simp

end
